theory Spec2Isabelle
  imports Complex_Main "HOL-Library.AList"
begin

section \<open>Exceptions and strings\<close>

text \<open>
  Python exceptions are values. Each constructor stands for the exception class of that
  name together with its subclasses and carries \<open>str(error)\<close>; \<open>OtherError\<close> is any
  other subclass of \<open>Exception\<close> a collaborator may raise, \<open>HTTPException\<close> is
  fastapi's (status code, detail).
\<close>

datatype exn =
    ValueError string
  | TypeError string
  | RuntimeError string
  | KeyError string
  | AttributeError string
  | ZeroDivisionError string
  | HTTPError string
  | HTTPException nat string
  | OtherError string

fun str_of :: "exn \<Rightarrow> string" where
  "str_of (ValueError m) = m"
| "str_of (TypeError m) = m"
| "str_of (RuntimeError m) = m"
| "str_of (KeyError m) = m"
| "str_of (AttributeError m) = m"
| "str_of (ZeroDivisionError m) = m"
| "str_of (HTTPError m) = m"
| "str_of (HTTPException c m) = m"
| "str_of (OtherError m) = m"

text \<open>\<open>s.startswith(p)\<close>, \<open>s.endswith(p)\<close> and \<open>sub in s\<close> on Python strings.\<close>

definition startswith :: "string \<Rightarrow> string \<Rightarrow> bool" where
  "startswith s p = (take (length p) s = p)"

definition endswith :: "string \<Rightarrow> string \<Rightarrow> bool" where
  "endswith s p = (length p \<le> length s \<and> drop (length s - length p) s = p)"

fun contains :: "string \<Rightarrow> string \<Rightarrow> bool" where
  "contains [] sub = (sub = [])"
| "contains (c # cs) sub = (startswith (c # cs) sub \<or> contains cs sub)"

text \<open>\<open>repr\<close> of a string without quotes or escapes in it, and of a pair of such strings.\<close>

definition quoted :: "string \<Rightarrow> string" where
  "quoted s = CHR 0x27 # s @ [CHR 0x27]"

definition repr_pair :: "string \<times> string \<Rightarrow> string" where
  "repr_pair k = ''('' @ quoted (fst k) @ '', '' @ quoted (snd k) @ '')''"

section \<open>The runtime's data (runtime.py)\<close>

datatype device = Cpu | Cuda

text \<open>The scale is a Python float in \<open>[0, 1]\<close>; it is only passed on, never computed with.\<close>

record LoraWeight =
  path :: string
  scale :: rat

text \<open>
  A cache entry. \<open>pipeline\<close> is the address of the pipeline object, \<open>last_cache_hit\<close>
  a reading of \<open>time.monotonic()\<close> (the float read as the rational it denotes; only
  its order is used).
\<close>

record Model =
  pipeline :: nat
  last_cache_hit :: rat

type_synonym model_key = "string \<times> string"

text \<open>The calls of the overlay interface of a pipeline, in the order they are made.\<close>

datatype lora_call =
    LoadLoraWeights string string
  | SetAdapters "string list" "rat list option"
  | FuseLora
  | UnfuseLora
  | UnloadLoraWeights

record scheduler_obj =
  sched_class :: string
  sched_config :: "(string \<times> string) list"
  compatibles :: "string list"

text \<open>
  A pipeline object: \<open>pipe_scheduler\<close> is the address of the sampler instance held by
  \<open>pipe.scheduler\<close>; \<open>watermark\<close> is \<open>None\<close> when the object has no such attribute,
  \<open>Some False\<close> when the attribute holds \<open>None\<close>; \<open>lora_calls\<close> logs the overlay
  calls made on it.
\<close>

record pipeline_obj =
  pipe_device :: device
  pipe_scheduler :: nat
  watermark :: "bool option"
  lora_calls :: "lora_call list"

text \<open>
  The state the runtime works on: \<open>models\<close> is \<open>self.models\<close>, an insertion-ordered
  dict, as an association list; \<open>pipes\<close> and \<open>schedulers\<close> are the heap of pipeline and
  sampler objects by address, \<open>next_addr\<close> the next free address; \<open>files\<close> are the
  paths that exist on disk, \<open>transfers\<close> counts the requests sent by \<open>urlopen\<close>,
  \<open>flushes\<close> the calls of \<open>empty_cache\<close>, \<open>now\<close> is \<open>time.monotonic()\<close>.
\<close>

record world =
  models :: "(model_key \<times> Model) list"
  pipes :: "nat \<Rightarrow> pipeline_obj"
  schedulers :: "nat \<Rightarrow> scheduler_obj"
  next_addr :: nat
  files :: "string set"
  transfers :: nat
  flushes :: nat
  now :: rat

text \<open>\<open>psutil.virtual_memory()\<close>, in bytes.\<close>

record memory =
  available :: nat
  total :: nat

text \<open>
  What \<open>urlopen\<close> and the read loop give: an HTTPError, any other exception, or a body
  with the declared \<open>content-length\<close> (0 when the header is absent) and the number of
  bytes received.
\<close>

datatype response =
    HTTPFailure string
  | TransportFailure exn
  | Body int nat

text \<open>What a pipeline loader of diffusers returns: the new pipeline and its sampler.\<close>

record loaded =
  ld_device :: device
  ld_watermark :: "bool option"
  ld_scheduler :: scheduler_obj

text \<open>
  The libraries and the machine, as parameters. Each may depend on the state it is called
  in. \<open>pipe_to_cuda\<close> and \<open>overlay_call\<close> say whether \<open>pipe.to("cuda")\<close> and a call of
  the overlay interface raise (\<open>None\<close>: the call returns). \<open>urlparse_path\<close> is
  \<open>urlparse(url).path\<close>, \<open>md5_hexdigest\<close> is \<open>md5(url.encode()).hexdigest()\<close>.
\<close>

record env =
  virtual_memory :: "world \<Rightarrow> memory"
  urlopen :: "world \<Rightarrow> string \<Rightarrow> response"
  urlparse_path :: "string \<Rightarrow> string"
  md5_hexdigest :: "string \<Rightarrow> string"
  from_single_file :: "string \<Rightarrow> string \<Rightarrow> world \<Rightarrow> exn + loaded"
  from_pretrained :: "string \<Rightarrow> world \<Rightarrow> exn + loaded"
  from_config :: "string \<Rightarrow> scheduler_obj \<Rightarrow> (string \<times> string) list \<Rightarrow> world \<Rightarrow> exn + scheduler_obj"
  pipe_to_cuda :: "nat \<Rightarrow> world \<Rightarrow> exn option"
  overlay_call :: "nat \<Rightarrow> lora_call \<Rightarrow> world \<Rightarrow> exn option"

text \<open>A stateful operation returns its result or the exception raised, and the state.\<close>

type_synonym 'a action = "world \<Rightarrow> (exn + 'a) \<times> world"

definition try_finally :: "'a action \<Rightarrow> unit action \<Rightarrow> 'a action" where
  "try_finally body cleanup w =
     (case body w of
        (r, w1) \<Rightarrow>
          (case cleanup w1 of
             (Inl e, w2) \<Rightarrow> (Inl e, w2)
           | (Inr u, w2) \<Rightarrow> (r, w2)))"

section \<open>The model cache and its two tiers\<close>

definition device_of :: "world \<Rightarrow> Model \<Rightarrow> device" where
  "device_of w m = pipe_device (pipes w (pipeline m))"

text \<open>
  get_loaded_models_by_device: the keys in dict order whose pipeline is on the device and
  is not one of \<open>ignored_models\<close>, then \<open>list.sort\<close> (stable, ascending) by
  \<open>last_cache_hit\<close>.
\<close>

definition get_loaded_models_by_device :: "world \<Rightarrow> device \<Rightarrow> nat list \<Rightarrow> model_key list" where
  "get_loaded_models_by_device w dev ignored_models =
     map fst
       (sort_key (\<lambda>km. last_cache_hit (snd km))
          (filter (\<lambda>km. device_of w (snd km) = dev \<and> pipeline (snd km) \<notin> set ignored_models)
             (models w)))"

text \<open>\<open>del self.models[model_id]\<close>: KeyError when the key is absent.\<close>

definition del_model :: "model_key \<Rightarrow> unit action" where
  "del_model model_id w =
     (case map_of (models w) model_id of
        None \<Rightarrow> (Inl (KeyError (repr_pair model_id)), w)
      | Some m \<Rightarrow> (Inr (), w\<lparr>models := AList.delete model_id (models w)\<rparr>))"

definition RAM_BUFFER_PERCENTAGE :: rat where
  "RAM_BUFFER_PERCENTAGE = 1 - 75 / 100"

text \<open>
  is_ram_buffer_full: \<open>memory.available / memory.total < RAM_BUFFER_PERCENTAGE\<close>. The
  float quotient is read as the exact one: the constant is exactly \<open>1/4\<close> in binary
  floating point, and for a total under \<open>2^54\<close> bytes rounding the quotient does not
  change on which side of \<open>1/4\<close> it lies.
\<close>

definition is_ram_buffer_full :: "memory \<Rightarrow> exn + bool" where
  "is_ram_buffer_full mem =
     (if total mem = 0 then Inl (ZeroDivisionError ''division by zero'')
      else Inr (of_nat (available mem) / of_nat (total mem) < RAM_BUFFER_PERCENTAGE))"

text \<open>
  The last two lines of offload_model_to_cpu: \<open>model.pipeline.to("cpu")\<close> moves the
  pipeline object and returns it; the move to host memory is taken to succeed.
\<close>

definition move_to_cpu :: "model_key \<Rightarrow> unit action" where
  "move_to_cpu model_id w =
     (case map_of (models w) model_id of
        None \<Rightarrow> (Inl (KeyError (repr_pair model_id)), w)
      | Some m \<Rightarrow>
          (Inr (), w\<lparr>pipes := (pipes w)(pipeline m := (pipes w (pipeline m))\<lparr>pipe_device := Cpu\<rparr>)\<rparr>))"

text \<open>
  The while loop of offload_model_to_cpu over \<open>models\<close>, the host-resident keys listed
  before the loop; \<open>models.pop()\<close> takes the last one.
\<close>

function offload_loop :: "env \<Rightarrow> model_key \<Rightarrow> model_key list \<Rightarrow> unit action" where
  "offload_loop env model_id ms w =
     (case is_ram_buffer_full (virtual_memory env w) of
        Inl e \<Rightarrow> (Inl e, w)
      | Inr full \<Rightarrow>
          if full then
            (if ms = [] then del_model model_id w
             else
               (case del_model (last ms) w of
                  (Inl e, w1) \<Rightarrow> (Inl e, w1)
                | (Inr u, w1) \<Rightarrow> offload_loop env model_id (butlast ms) w1))
          else move_to_cpu model_id w)"
  by pat_completeness auto
termination
  by (relation "measure (\<lambda>(env, model_id, ms, w). length ms)") auto

definition offload_model_to_cpu :: "env \<Rightarrow> model_key \<Rightarrow> unit action" where
  "offload_model_to_cpu env model_id w =
     offload_loop env model_id (get_loaded_models_by_device w Cpu []) w"

definition empty_cache :: "world \<Rightarrow> world" where
  "empty_cache w = w\<lparr>flushes := Suc (flushes w)\<rparr>"

section \<open>The retry loop\<close>

definition cuda_oom_errors :: "string list" where
  "cuda_oom_errors = [''CUDA out of memory'', ''INTERNAL ASSERT FAILED'']"

text \<open>\<open>any(error_str in str(error) for error_str in __cuda_oom_errors)\<close>\<close>

definition is_cuda_oom :: "exn \<Rightarrow> bool" where
  "is_cuda_oom error = list_ex (\<lambda>error_str. contains (str_of error) error_str) cuda_oom_errors"

text \<open>\<open>except RuntimeError\<close>: the handler takes RuntimeError and its subclasses only.\<close>

fun is_RuntimeError :: "exn \<Rightarrow> bool" where
  "is_RuntimeError (RuntimeError m) = True"
| "is_RuntimeError e = False"

text \<open>
  One call of execute_on_cuda, with what it did: \<open>outcome\<close> is the value returned or the
  exception raised; \<open>attempts\<close> lists the invocations of the wrapped function in order,
  each with what it gave and the state it left; \<open>offloaded\<close> lists the keys popped and
  passed to offload_model_to_cpu, in order; \<open>final\<close> is the state afterwards.
\<close>

record 'a run =
  outcome :: "exn + 'a"
  attempts :: "((exn + 'a) \<times> world) list"
  offloaded :: "model_key list"
  final :: world

definition not_enough_cuda_memory :: exn where
  "not_enough_cuda_memory = RuntimeError ''Not enough CUDA memory to complete the operation.''"

function cuda_loop :: "env \<Rightarrow> 'a action \<Rightarrow> bool \<Rightarrow> model_key list \<Rightarrow> world \<Rightarrow> 'a run" where
  "cuda_loop env function first_try cached_models w =
     (if first_try \<or> cached_models \<noteq> [] then
        (case function w of
           (Inr r, w1) \<Rightarrow>
             \<lparr>outcome = Inr r, attempts = [(Inr r, w1)], offloaded = [], final = w1\<rparr>
         | (Inl error, w1) \<Rightarrow>
             if \<not> is_RuntimeError error then
               \<lparr>outcome = Inl error, attempts = [(Inl error, w1)], offloaded = [], final = w1\<rparr>
             else if \<not> is_cuda_oom error \<or> cached_models = [] then
               \<lparr>outcome = Inl error, attempts = [(Inl error, w1)], offloaded = [], final = w1\<rparr>
             else
               (let target_model_id = last cached_models
                in case offload_model_to_cpu env target_model_id w1 of
                     (Inl e, w2) \<Rightarrow>
                       \<lparr>outcome = Inl e, attempts = [(Inl error, w1)],
                        offloaded = [target_model_id], final = w2\<rparr>
                   | (Inr u, w2) \<Rightarrow>
                       (let rest = cuda_loop env function False (butlast cached_models)
                                     (empty_cache w2)
                        in rest\<lparr>attempts := (Inl error, w1) # attempts rest,
                                offloaded := target_model_id # offloaded rest\<rparr>)))
      else
        \<lparr>outcome = Inl not_enough_cuda_memory, attempts = [], offloaded = [],
         final = empty_cache w\<rparr>)"
  by pat_completeness auto
termination
  by (relation "measure (\<lambda>(env, function, first_try, cached_models, w). length cached_models)")
    auto

definition execute_on_cuda :: "env \<Rightarrow> 'a action \<Rightarrow> nat list \<Rightarrow> world \<Rightarrow> 'a run" where
  "execute_on_cuda env function ignored_models w =
     cuda_loop env function True (get_loaded_models_by_device w Cuda ignored_models) w"

section \<open>Resolving weight references\<close>

definition CHECKPOINTS_DIR :: string where
  "CHECKPOINTS_DIR = ''/data/checkpoints''"

definition LORA_WEIGHTS_DIR :: string where
  "LORA_WEIGHTS_DIR = ''/data/loras''"

definition CACHE_PREFIX :: string where
  "CACHE_PREFIX = []"

text \<open>\<open>s.split("/")[-1]\<close>, \<open>s.strip(".")\<close> and \<open>s.replace(".", "_")\<close>.\<close>

definition last_segment :: "string \<Rightarrow> string" where
  "last_segment s = rev (takeWhile (\<lambda>c. c \<noteq> CHR ''/'') (rev s))"

definition strip_dots :: "string \<Rightarrow> string" where
  "strip_dots s =
     rev (dropWhile (\<lambda>c. c = CHR ''.'') (rev (dropWhile (\<lambda>c. c = CHR ''.'') s)))"

definition replace_dots :: "string \<Rightarrow> string" where
  "replace_dots s = map (\<lambda>c. if c = CHR ''.'' then CHR ''_'' else c) s"

text \<open>
  \<open>Path.with_suffix\<close> on a path whose last component is not empty: the suffix of the
  last component (from its last dot, when that dot is neither first nor last) is
  replaced; a suffix holding a path separator is refused.
\<close>

definition with_suffix :: "string \<Rightarrow> string \<Rightarrow> exn + string" where
  "with_suffix p suffix =
     (if CHR ''/'' \<in> set suffix then Inl (ValueError ''Invalid suffix'')
      else
        (let name = last_segment p;
             ext = rev (takeWhile (\<lambda>c. c \<noteq> CHR ''.'') (rev name));
             stem_len = length name - length ext - 1
         in if CHR ''.'' \<in> set name \<and> 0 < stem_len \<and> ext \<noteq> []
            then Inr (take (length p - length ext - 1) p @ suffix)
            else Inr (p @ suffix)))"

text \<open>The path download_to stores a URL under.\<close>

definition download_path_of :: "env \<Rightarrow> string \<Rightarrow> string \<Rightarrow> string option \<Rightarrow> exn + string" where
  "download_path_of env url directory extension =
     (let url_file = CACHE_PREFIX @ replace_dots (strip_dots (last_segment (urlparse_path env url)));
          url_hash = md5_hexdigest env url;
          download_path = directory @ ''/'' @ url_file @ ''-'' @ url_hash
      in case extension of
           None \<Rightarrow> Inr download_path
         | Some ext \<Rightarrow> if ext = [] then Inr download_path
                       else with_suffix download_path (''.'' @ ext))"

text \<open>
  download_to. The temporary file is created and removed or moved within the call and is
  not part of the state (its name is left out of the size error's text); the directory
  exists (both callers create it first).
\<close>

definition download_to :: "env \<Rightarrow> string \<Rightarrow> string \<Rightarrow> string option \<Rightarrow> string action" where
  "download_to env url directory extension w =
     (if extension \<noteq> None \<and> endswith url ''.ckpt''
      then (Inl (ValueError ''Can't load non-safetensor model files.''), w)
      else
        (case download_path_of env url directory extension of
           Inl e \<Rightarrow> (Inl e, w)
         | Inr download_path \<Rightarrow>
             if download_path \<notin> files w then
               (case urlopen env w url of
                  HTTPFailure cause \<Rightarrow>
                    (Inl (ValueError (''Couldn't download weights from the given URL: '' @ url
                            @ ''. Possible cause is: '' @ cause)),
                     w\<lparr>transfers := Suc (transfers w)\<rparr>)
                | TransportFailure e \<Rightarrow> (Inl e, w\<lparr>transfers := Suc (transfers w)\<rparr>)
                | Body total_size received \<Rightarrow>
                    if 0 < total_size \<and> total_size \<noteq> int received
                    then (Inl (ValueError ''Downloaded file is not the same size as the remote file.''),
                          w\<lparr>transfers := Suc (transfers w)\<rparr>)
                    else (Inr download_path,
                          w\<lparr>transfers := Suc (transfers w),
                            files := insert download_path (files w)\<rparr>))
             else (Inr download_path, w)))"

definition is_remote :: "string \<Rightarrow> bool" where
  "is_remote name = (startswith name ''https://'' \<or> startswith name ''http://'')"

definition download_model_if_needed :: "env \<Rightarrow> string \<Rightarrow> string action" where
  "download_model_if_needed env model_name w =
     (if is_remote model_name
      then download_to env model_name CHECKPOINTS_DIR (Some ''safetensors'') w
      else (Inr model_name, w))"

text \<open>
  A Python value handed to download_lora_weight_if_needed: the function is written for a
  \<open>str\<close>; a LoraWeight object has no attribute \<open>startswith\<close>.
\<close>

datatype pyarg = Str string | Lora LoraWeight

definition no_startswith :: exn where
  "no_startswith =
     AttributeError (quoted ''LoraWeight'' @ '' object has no attribute '' @ quoted ''startswith'')"

definition download_lora_weight_if_needed :: "env \<Rightarrow> pyarg \<Rightarrow> string action" where
  "download_lora_weight_if_needed env lora_weight w =
     (case lora_weight of
        Lora obj \<Rightarrow>
          (Inl no_startswith, w)
      | Str s \<Rightarrow>
          if is_remote s then download_to env s LORA_WEIGHTS_DIR (Some ''safetensors'') w
          else (Inr s, w))"

section \<open>Loading a pipeline into the cache\<close>

text \<open>
  get_model. A key that is absent is loaded, with \<open>from_single_file\<close> when the name
  ends in \<open>.ckpt\<close> or \<open>.safetensors\<close> and with \<open>from_pretrained\<close> otherwise; the new
  pipeline and its sampler get fresh addresses and the entry is added at the end of the
  dict with \<open>last_cache_hit = 0\<close>.
\<close>

definition get_model :: "env \<Rightarrow> string \<Rightarrow> string \<Rightarrow> Model action" where
  "get_model env model_name arch w =
     (let model_key = (model_name, arch)
      in case map_of (models w) model_key of
           Some m \<Rightarrow> (Inr m, w)
         | None \<Rightarrow>
             (case (if endswith model_name ''.ckpt'' \<or> endswith model_name ''.safetensors''
                    then from_single_file env
                           (if arch = ''sdxl'' then ''StableDiffusionXLPipeline''
                            else ''StableDiffusionPipeline'')
                           model_name w
                    else from_pretrained env model_name w) of
                Inl e \<Rightarrow> (Inl e, w)
              | Inr ld \<Rightarrow>
                  (let sched_addr = next_addr w;
                       pipe = Suc (next_addr w);
                       obj = \<lparr>pipe_device = ld_device ld, pipe_scheduler = sched_addr,
                              watermark = (case ld_watermark ld of None \<Rightarrow> None
                                           | Some x \<Rightarrow> Some False),
                              lora_calls = []\<rparr>;
                       m = \<lparr>pipeline = pipe, last_cache_hit = 0\<rparr>
                   in (Inr m,
                       w\<lparr>models := AList.update model_key m (models w),
                         pipes := (pipes w)(pipe := obj),
                         schedulers := (schedulers w)(sched_addr := ld_scheduler ld),
                         next_addr := Suc (Suc (next_addr w))\<rparr>))))"

text \<open>Model.as_base on the entry of a key: the access time is refreshed.\<close>

definition as_base :: "model_key \<Rightarrow> Model \<Rightarrow> nat action" where
  "as_base model_key m w =
     (Inr (pipeline m),
      w\<lparr>models := AList.update model_key (m\<lparr>last_cache_hit := now w\<rparr>) (models w)\<rparr>)"

text \<open>\<open>pipe.to("cuda")\<close>, the function load_model wraps in execute_on_cuda.\<close>

definition to_cuda :: "env \<Rightarrow> nat \<Rightarrow> nat action" where
  "to_cuda env pipe w =
     (case pipe_to_cuda env pipe w of
        Some e \<Rightarrow> (Inl e, w)
      | None \<Rightarrow> (Inr pipe, w\<lparr>pipes := (pipes w)(pipe := (pipes w pipe)\<lparr>pipe_device := Cuda\<rparr>)\<rparr>))"

text \<open>\<open>str.lower\<close> on the ASCII letters.\<close>

definition lower_char :: "char \<Rightarrow> char" where
  "lower_char c =
     (let n = (of_char c :: nat) in if 65 \<le> n \<and> n \<le> 90 then char_of (n + 32) else c)"

text \<open>
  The first part of load_model, up to the leased pipeline on the accelerator: the key of
  the entry and the address of its pipeline.
\<close>

definition acquire :: "env \<Rightarrow> string \<Rightarrow> string option \<Rightarrow> (model_key \<times> nat) action" where
  "acquire env model_name model_architecture w =
     (case download_model_if_needed env model_name w of
        (Inl e, w1) \<Rightarrow> (Inl e, w1)
      | (Inr local_name, w1) \<Rightarrow>
          (let arch = (case model_architecture of
                         None \<Rightarrow> if contains (map lower_char local_name) ''xl'' then ''sdxl''
                                 else ''sd''
                       | Some a \<Rightarrow> a)
           in case get_model env local_name arch w1 of
                (Inl e, w2) \<Rightarrow> (Inl e, w2)
              | (Inr m, w2) \<Rightarrow>
                  (case as_base (local_name, arch) m w2 of
                     (Inl e, w3) \<Rightarrow> (Inl e, w3)
                   | (Inr pipe, w3) \<Rightarrow>
                       (let r = execute_on_cuda env (to_cuda env pipe) [] w3
                        in case outcome r of
                             Inl e \<Rightarrow> (Inl e, final r)
                           | Inr moved \<Rightarrow> (Inr ((local_name, arch), moved), final r)))))"

section \<open>Scoped sampler override\<close>

definition SUPPORTED_SCHEDULERS :: "(string \<times> string \<times> (string \<times> string) list) list" where
  "SUPPORTED_SCHEDULERS =
     [(''DPM++ 2M'', ''DPMSolverMultistepScheduler'', []),
      (''DPM++ 2M Karras'', ''DPMSolverMultistepScheduler'', [(''use_karras_sigmas'', ''True'')]),
      (''DPM++ 2M SDE'', ''DPMSolverMultistepScheduler'',
         [(''algorithm_type'', ''sde-dpmsolver++'')]),
      (''DPM++ 2M SDE Karras'', ''DPMSolverMultistepScheduler'',
         [(''algorithm_type'', ''sde-dpmsolver++''), (''use_karras_sigmas'', ''True'')]),
      (''Euler'', ''EulerDiscreteScheduler'', []),
      (''Euler A'', ''EulerAncestralDiscreteScheduler'', []),
      (''LCM'', ''LCMScheduler'', [])]"

text \<open>\<open>pipe.scheduler = s\<close>\<close>

definition set_scheduler :: "nat \<Rightarrow> nat \<Rightarrow> world \<Rightarrow> world" where
  "set_scheduler pipe s w = w\<lparr>pipes := (pipes w)(pipe := (pipes w pipe)\<lparr>pipe_scheduler := s\<rparr>)\<rparr>"

fun join_names :: "string list \<Rightarrow> string" where
  "join_names [] = []"
| "join_names [x] = x"
| "join_names (x # y # ys) = x @ '', '' @ join_names (y # ys)"

text \<open>
  change_scheduler around \<open>body\<close>, the block of the \<open>with\<close> statement. The new sampler
  made by \<open>from_config\<close> gets a fresh address.
\<close>

definition change_scheduler :: "env \<Rightarrow> nat \<Rightarrow> string option \<Rightarrow> 'a action \<Rightarrow> 'a action" where
  "change_scheduler env pipe scheduler_name body w =
     (case scheduler_name of
        None \<Rightarrow> body w
      | Some name \<Rightarrow>
          (case map_of SUPPORTED_SCHEDULERS name of
             None \<Rightarrow> (Inl (KeyError (quoted name)), w)
           | Some (scheduler_cls_name, scheduler_kwargs) \<Rightarrow>
               (let current = schedulers w (pipe_scheduler (pipes w pipe))
                in if scheduler_cls_name \<notin> set (compatibles current)
                      \<and> scheduler_cls_name \<noteq> ''LCMScheduler''
                   then (Inl (ValueError (''The scheduler '' @ name
                                @ '' is not compatible with this model.'' @ [CHR 0x0A]
                                @ ''Compatible schedulers: ''
                                @ join_names (compatibles current))), w)
                   else
                     (let original_scheduler = pipe_scheduler (pipes w pipe)
                      in try_finally
                           (\<lambda>w. case from_config env scheduler_cls_name current scheduler_kwargs w of
                                  Inl e \<Rightarrow> (Inl e, w)
                                | Inr new \<Rightarrow>
                                    body (set_scheduler pipe (next_addr w)
                                            (w\<lparr>schedulers := (schedulers w)(next_addr w := new),
                                               next_addr := Suc (next_addr w)\<rparr>)))
                           (\<lambda>w. (Inr (), set_scheduler pipe original_scheduler w))
                           w))))"

section \<open>Overlays\<close>

text \<open>A call of the overlay interface of a pipeline: logged, then it returns or raises.\<close>

definition pipe_call :: "env \<Rightarrow> nat \<Rightarrow> lora_call \<Rightarrow> unit action" where
  "pipe_call env pipe c w =
     (let w1 = w\<lparr>pipes := (pipes w)(pipe := (pipes w pipe)\<lparr>lora_calls := lora_calls (pipes w pipe) @ [c]\<rparr>)\<rparr>
      in case overlay_call env pipe c w of
           Some e \<Rightarrow> (Inl e, w1)
         | None \<Rightarrow> (Inr (), w1))"

text \<open>The list comprehension over download_lora_weight_if_needed.\<close>

fun resolve_all :: "env \<Rightarrow> pyarg list \<Rightarrow> string list action" where
  "resolve_all env [] w = (Inr [], w)"
| "resolve_all env (x # xs) w =
     (case download_lora_weight_if_needed env x w of
        (Inl e, w1) \<Rightarrow> (Inl e, w1)
      | (Inr p, w1) \<Rightarrow>
          (case resolve_all env xs w1 of
             (Inl e, w2) \<Rightarrow> (Inl e, w2)
           | (Inr ps, w2) \<Rightarrow> (Inr (p # ps), w2)))"

text \<open>The for loop over \<open>zip(lora_paths, lora_scales, adapter_names)\<close>.\<close>

fun load_all :: "env \<Rightarrow> nat \<Rightarrow> (string \<times> rat \<times> string) list \<Rightarrow> unit action" where
  "load_all env pipe [] w = (Inr (), w)"
| "load_all env pipe ((lora_path, lora_scale, adapter_name) # rest) w =
     (case pipe_call env pipe (LoadLoraWeights lora_path adapter_name) w of
        (Inl e, w1) \<Rightarrow> (Inl e, w1)
      | (Inr u, w1) \<Rightarrow> load_all env pipe rest w1)"

text \<open>\<open>Path(p).name\<close>: the last component, trailing separators dropped.\<close>

definition path_name :: "string \<Rightarrow> string" where
  "path_name p = last_segment (rev (dropWhile (\<lambda>c. c = CHR ''/'') (rev p)))"

definition merge_and_apply_loras :: "env \<Rightarrow> nat \<Rightarrow> LoraWeight list \<Rightarrow> unit action" where
  "merge_and_apply_loras env pipe loras w =
     (case resolve_all env (map Lora loras) w of
        (Inl e, w1) \<Rightarrow> (Inl e, w1)
      | (Inr lora_paths, w1) \<Rightarrow>
          (let adapter_names = map (\<lambda>lora_path. replace_dots (path_name lora_path)) lora_paths;
               lora_scales = map scale loras
           in case load_all env pipe (zip lora_paths (zip lora_scales adapter_names)) w1 of
                (Inl e, w2) \<Rightarrow> (Inl e, w2)
              | (Inr u, w2) \<Rightarrow>
                  (case pipe_call env pipe (SetAdapters adapter_names (Some lora_scales)) w2 of
                     (Inl e, w3) \<Rightarrow> (Inl e, w3)
                   | (Inr u, w3) \<Rightarrow> pipe_call env pipe FuseLora w3)))"

section \<open>The lease of a pipeline\<close>

text \<open>\<open>pipe.unfuse_lora()\<close> then \<open>pipe.set_adapters(adapter_names=[])\<close>.\<close>

definition reversal :: "env \<Rightarrow> nat \<Rightarrow> unit action" where
  "reversal env pipe w =
     (case pipe_call env pipe UnfuseLora w of
        (Inl e, w1) \<Rightarrow> (Inl e, w1)
      | (Inr u, w1) \<Rightarrow> pipe_call env pipe (SetAdapters [] None) w1)"

text \<open>\<open>self.models.pop(key, None)\<close>\<close>

definition pop_model :: "model_key \<Rightarrow> world \<Rightarrow> world" where
  "pop_model model_key w = w\<lparr>models := AList.delete model_key (models w)\<rparr>"

text \<open>The \<open>finally\<close> block of load_model.\<close>

definition teardown :: "env \<Rightarrow> nat \<Rightarrow> LoraWeight list \<Rightarrow> model_key \<Rightarrow> unit action" where
  "teardown env pipe loras model_key w =
     (if loras \<noteq> [] then
        (case reversal env pipe w of
           (Inl e, w1) \<Rightarrow> (Inr (), pop_model model_key w1)
         | (Inr u, w1) \<Rightarrow> pipe_call env pipe UnloadLoraWeights w1)
      else (Inr (), w))"

text \<open>The \<open>try\<close> block of load_model around \<open>body\<close>, the block of the caller's \<open>with\<close>.\<close>

definition apply_and_run :: "env \<Rightarrow> nat \<Rightarrow> LoraWeight list \<Rightarrow> (nat \<Rightarrow> 'a action) \<Rightarrow> 'a action" where
  "apply_and_run env pipe loras body w =
     (if loras \<noteq> [] then
        (case merge_and_apply_loras env pipe loras w of
           (Inl e, w1) \<Rightarrow> (Inl e, w1)
         | (Inr u, w1) \<Rightarrow> body pipe w1)
      else body pipe w)"

text \<open>load_model around \<open>body\<close>; \<open>clip_skip\<close> is only printed.\<close>

definition load_model ::
  "env \<Rightarrow> string \<Rightarrow> LoraWeight list \<Rightarrow> int \<Rightarrow> string option \<Rightarrow> string option
     \<Rightarrow> (nat \<Rightarrow> 'a action) \<Rightarrow> 'a action" where
  "load_model env model_name loras clip_skip scheduler model_architecture body w =
     (case acquire env model_name model_architecture w of
        (Inl e, w1) \<Rightarrow> (Inl e, w1)
      | (Inr (model_key, pipe), w1) \<Rightarrow>
          change_scheduler env pipe scheduler
            (try_finally (apply_and_run env pipe loras body)
               (teardown env pipe loras model_key))
            w1)"


section \<open>The request handler (model.py, generate_image)\<close>

record Embedding =
  embedding_path :: string
  tokens :: "string list"

record InputParameters =
  model_name :: string
  prompt :: string
  negative_prompt :: string
  loras :: "LoraWeight list"
  embeddings :: "Embedding list"
  seed :: "int option"
  image_size :: "string option"
  num_inference_steps :: int
  guidance_scale :: rat
  clip_skip :: int
  model_architecture :: "string option"
  scheduler :: "string option"
  image_format :: string
  num_images :: int
  enable_safety_checker :: bool

record 'img OutputParameters =
  out_images :: "'img list"
  out_seed :: int
  has_nsfw_concepts :: "bool list"

text \<open>The keyword arguments of the inference call, \<open>kwargs\<close> of generate_image.\<close>

record inference_kwargs =
  kw_prompt :: string
  kw_negative_prompt :: string
  kw_num_images_per_prompt :: int
  kw_num_inference_steps :: int
  kw_guidance_scale :: rat
  kw_generator_seed :: int
  kw_size :: "(nat \<times> nat) option"

text \<open>
  What generate_image uses from outside the two source files, as parameters:
  \<open>torch_seed\<close> is the value \<open>torch.seed()\<close> returns when it is called,
  \<open>get_image_size\<close> is fal's, \<open>run_inference\<close> is the call of the leased pipeline
  with the keyword arguments (\<open>make_inference\<close>), \<open>run_safety_checker\<close> and
  \<open>filter_by\<close> are the names model.py expects of runtime.py, which does not define
  them, \<open>upload_images\<close> hands the images to fal's storage.
\<close>

record ('raw, 'img) collaborators =
  torch_seed :: int
  get_image_size :: "string \<Rightarrow> exn + (nat \<times> nat)"
  run_inference :: "nat \<Rightarrow> inference_kwargs \<Rightarrow> 'raw list action"
  run_safety_checker :: "'raw list \<Rightarrow> bool \<Rightarrow> exn + bool list"
  filter_by :: "bool list \<Rightarrow> 'raw list \<Rightarrow> 'raw list"
  upload_images :: "'raw list \<Rightarrow> exn + 'img list"

text \<open>\<open>input.seed or torch.seed()\<close>: \<open>None\<close> and \<open>0\<close> are falsy.\<close>

definition seed_or_fresh :: "int option \<Rightarrow> int \<Rightarrow> int" where
  "seed_or_fresh s fresh = (case s of None \<Rightarrow> fresh | Some n \<Rightarrow> if n = 0 then fresh else n)"

text \<open>
  The body of the \<open>with session.load_model(...) as pipe\<close> block; the inference runs
  in execute_on_cuda with the leased pipeline in \<open>ignored_models\<close>.
\<close>

definition generate_body ::
  "env \<Rightarrow> ('raw, 'img) collaborators \<Rightarrow> InputParameters \<Rightarrow> (nat \<times> nat) option \<Rightarrow> nat
     \<Rightarrow> 'img OutputParameters action" where
  "generate_body env c inp img_size pipe w =
     (let sd = seed_or_fresh (seed inp) (torch_seed c);
          kwargs = \<lparr>kw_prompt = prompt inp, kw_negative_prompt = negative_prompt inp,
                    kw_num_images_per_prompt = num_images inp,
                    kw_num_inference_steps = num_inference_steps inp,
                    kw_guidance_scale = guidance_scale inp,
                    kw_generator_seed = sd, kw_size = img_size\<rparr>;
          result = execute_on_cuda env (run_inference c pipe kwargs) [pipe] w
      in case outcome result of
           Inl e \<Rightarrow> (Inl e, final result)
         | Inr images \<Rightarrow>
             (case run_safety_checker c images (enable_safety_checker inp) of
                Inl e \<Rightarrow> (Inl e, final result)
              | Inr nsfw \<Rightarrow>
                  (case upload_images c (filter_by c nsfw images) of
                     Inl e \<Rightarrow> (Inl e, final result)
                   | Inr uploaded \<Rightarrow>
                       (Inr \<lparr>out_images = uploaded, out_seed = sd,
                             has_nsfw_concepts = nsfw\<rparr>, final result))))"

text \<open>wrap_excs: a ValueError or TypeError leaves as HTTPException(422, str(exc)).\<close>

fun wrap_excs :: "exn + 'a \<Rightarrow> exn + 'a" where
  "wrap_excs (Inl (ValueError m)) = Inl (HTTPException 422 m)"
| "wrap_excs (Inl (TypeError m)) = Inl (HTTPException 422 m)"
| "wrap_excs r = r"

text \<open>
  The parameters of GlobalRuntime.load_model after \<open>self\<close> (runtime.py), and the
  keywords of the call in generate_image (model.py); the model name is passed by
  position.
\<close>

definition load_model_parameters :: "string list" where
  "load_model_parameters =
     [''model_name'', ''loras'', ''clip_skip'', ''scheduler'', ''model_architecture'']"

definition load_model_keywords :: "string list" where
  "load_model_keywords =
     [''loras'', ''embeddings'', ''clip_skip'', ''scheduler'', ''model_architecture'']"

text \<open>
  Python binds the keywords of a call to the parameters of the function before its body
  runs: a keyword that is no parameter raises TypeError (the function takes no
  \<open>**kwargs\<close>).
\<close>

definition unexpected_keyword :: "string \<Rightarrow> string list \<Rightarrow> string list \<Rightarrow> exn option" where
  "unexpected_keyword fname parameters keywords =
     (case find (\<lambda>k. k \<notin> set parameters) keywords of
        None \<Rightarrow> None
      | Some k \<Rightarrow>
          Some (TypeError (fname @ ''() got an unexpected keyword argument '' @ quoted k)))"

definition generate_image ::
  "env \<Rightarrow> ('raw, 'img) collaborators \<Rightarrow> InputParameters \<Rightarrow> 'img OutputParameters action" where
  "generate_image env c inp w =
     (case (case image_size inp of None \<Rightarrow> Inr None
            | Some s \<Rightarrow> (case get_image_size c s of Inl e \<Rightarrow> Inl e | Inr wh \<Rightarrow> Inr (Some wh))) of
        Inl e \<Rightarrow> (Inl e, w)
      | Inr img_size \<Rightarrow>
          (case (case unexpected_keyword ''GlobalRuntime.load_model'' load_model_parameters
                        load_model_keywords of
                   Some e \<Rightarrow> (Inl e, w)
                 | None \<Rightarrow>
                     load_model env (model_name inp) (loras inp) (clip_skip inp) (scheduler inp)
                       (model_architecture inp) (generate_body env c inp img_size) w) of
             (r, w1) \<Rightarrow> (wrap_excs r, w1)))"

section \<open>Concrete inputs\<close>

text \<open>
  Collaborators of generate_image that all succeed, with \<open>torch.seed()\<close> returning
  \<open>fresh\<close>, and a request.
\<close>

definition ex_collaborators :: "int \<Rightarrow> (nat, nat) collaborators" where
  "ex_collaborators fresh =
     \<lparr>torch_seed = fresh, get_image_size = (\<lambda>s. Inr (1024, 1024)),
      run_inference = (\<lambda>p kw w. (Inr [1], w)),
      run_safety_checker = (\<lambda>imgs en. Inr (map (\<lambda>i. False) imgs)),
      filter_by = (\<lambda>flags imgs. imgs), upload_images = (\<lambda>imgs. Inr imgs)\<rparr>"

definition ex_input :: "int option \<Rightarrow> InputParameters" where
  "ex_input s =
     \<lparr>model_name = ''runwayml/stable-diffusion-v1-5'', prompt = ''a cat'',
      negative_prompt = [], loras = [], embeddings = [], seed = s,
      image_size = Some ''square_hd'', num_inference_steps = 30, guidance_scale = 15 / 2,
      clip_skip = 0, model_architecture = None, scheduler = None, image_format = ''png'',
      num_images = 1, enable_safety_checker = False\<rparr>"

text \<open>Pipelines, a sampler and libraries that always succeed, with host memory read by \<open>vm\<close>.\<close>

definition ex_pipe :: "device \<Rightarrow> pipeline_obj" where
  "ex_pipe d = \<lparr>pipe_device = d, pipe_scheduler = 0, watermark = None, lora_calls = []\<rparr>"

definition ex_scheduler :: scheduler_obj where
  "ex_scheduler = \<lparr>sched_class = ''PNDMScheduler'', sched_config = [],
     compatibles = [''EulerDiscreteScheduler'', ''DPMSolverMultistepScheduler'']\<rparr>"

definition ex_loaded :: loaded where
  "ex_loaded = \<lparr>ld_device = Cpu, ld_watermark = Some True, ld_scheduler = ex_scheduler\<rparr>"

definition ex_env :: "(world \<Rightarrow> memory) \<Rightarrow> env" where
  "ex_env vm =
     \<lparr>virtual_memory = vm, urlopen = (\<lambda>w url. Body 4 4),
      urlparse_path = (\<lambda>url. drop 14 url), md5_hexdigest = (\<lambda>url. ''0cc175b9c0f1b6a8''),
      from_single_file = (\<lambda>cls name w. Inr ex_loaded),
      from_pretrained = (\<lambda>name w. Inr ex_loaded),
      from_config = (\<lambda>cls old kwargs w. Inr (old\<lparr>sched_class := cls\<rparr>)),
      pipe_to_cuda = (\<lambda>p w. None), overlay_call = (\<lambda>p c w. None)\<rparr>"

definition plenty :: "world \<Rightarrow> memory" where
  "plenty w = \<lparr>available = 8, total = 16\<rparr>"

definition key_A :: model_key where "key_A = (''A'', ''sd'')"

definition key_B :: model_key where "key_B = (''B'', ''sd'')"

definition key_T :: model_key where "key_T = (''T'', ''sdxl'')"

text \<open>An empty cache.\<close>

definition no_models :: world where
  "no_models =
     \<lparr>models = [], pipes = (\<lambda>a. ex_pipe Cpu), schedulers = (\<lambda>a. ex_scheduler),
      next_addr = 1, files = {}, transfers = 0, flushes = 0, now = 0\<rparr>"

text \<open>
  Two entries on the accelerator: A (pipeline 1) last used at time 1, B (pipeline 2) last
  used at time 2.
\<close>

definition two_on_cuda :: world where
  "two_on_cuda =
     no_models\<lparr>models := [(key_A, \<lparr>pipeline = 1, last_cache_hit = 1\<rparr>),
                           (key_B, \<lparr>pipeline = 2, last_cache_hit = 2\<rparr>)],
               pipes := (\<lambda>a. ex_pipe Cuda), next_addr := 3, now := 2\<rparr>"

text \<open>
  Two entries in host memory, A last used at time 1 and B at time 2, and T (pipeline 3)
  on the accelerator.
\<close>

definition two_on_host :: world where
  "two_on_host =
     no_models\<lparr>models := [(key_A, \<lparr>pipeline = 1, last_cache_hit = 1\<rparr>),
                           (key_B, \<lparr>pipeline = 2, last_cache_hit = 2\<rparr>),
                           (key_T, \<lparr>pipeline = 3, last_cache_hit = 3\<rparr>)],
               pipes := (\<lambda>a. ex_pipe Cpu)(3 := ex_pipe Cuda), next_addr := 4, now := 3\<rparr>"

text \<open>Host memory with less than a quarter free while two or more cached pipelines are in it.\<close>

definition tight :: "world \<Rightarrow> memory" where
  "tight w =
     \<lparr>available = (if 2 \<le> length (get_loaded_models_by_device w Cpu []) then 1 else 8),
      total = 16\<rparr>"

text \<open>Work that runs out of accelerator memory while more than \<open>n\<close> cached pipelines are on it.\<close>

definition cuda_oom :: exn where
  "cuda_oom = RuntimeError ''CUDA out of memory. Tried to allocate 2.00 GiB''"

definition fits :: "nat \<Rightarrow> nat action" where
  "fits n w =
     (if n < length (get_loaded_models_by_device w Cuda []) then (Inl cuda_oom, w)
      else (Inr 42, w))"

text \<open>Work that always runs out of accelerator memory, and work that fails otherwise once
  at most one cached pipeline is on the accelerator.\<close>

definition always_oom :: "nat action" where
  "always_oom w = (Inl cuda_oom, w)"

definition shape_error :: exn where
  "shape_error = RuntimeError ''mat1 and mat2 shapes cannot be multiplied''"

definition breaks_later :: "nat action" where
  "breaks_later w =
     (if 1 < length (get_loaded_models_by_device w Cuda []) then (Inl cuda_oom, w)
      else (Inl shape_error, w))"

text \<open>A remote reference, a local checkpoint in the legacy format, and an overlay.\<close>

definition ex_url :: string where
  "ex_url = ''https://hf.co/org/model.v2.safetensors''"

definition local_ckpt :: string where
  "local_ckpt = ''/data/models/v1-5-pruned.ckpt''"




text \<open>
  Blocks of a \<open>with\<close> statement: one reads the active sampler's address, one replaces
  the sampler and raises.
\<close>

definition reads_scheduler :: "nat \<Rightarrow> nat action" where
  "reads_scheduler pipe w = (Inr (pipe_scheduler (pipes w pipe)), w)"

definition breaks_scheduler :: "nat \<Rightarrow> nat action" where
  "breaks_scheduler pipe w = (Inl (RuntimeError ''inference failed''), set_scheduler pipe 99 w)"


section \<open>The seed of a generation request\<close>

lemma seed_or_fresh_cases:
  "((s = None \<or> s = Some 0) \<longrightarrow> seed_or_fresh s fresh = fresh)
   \<and> (\<forall>n. s = Some n \<and> n \<noteq> 0 \<longrightarrow> seed_or_fresh s fresh = n)"
  by (auto simp: seed_or_fresh_def)

lemma load_model_call_raises:
  "unexpected_keyword ''GlobalRuntime.load_model'' load_model_parameters load_model_keywords
     = Some (TypeError (''GlobalRuntime.load_model() got an unexpected keyword argument ''
                        @ quoted ''embeddings''))"
  by (simp add: unexpected_keyword_def load_model_parameters_def load_model_keywords_def)

lemma generate_image_outcome:
  "generate_image env c inp w =
     (case (case image_size inp of None \<Rightarrow> Inr None
            | Some s \<Rightarrow> (case get_image_size c s of Inl e \<Rightarrow> Inl e | Inr wh \<Rightarrow> Inr (Some wh))) of
        Inl e \<Rightarrow> (Inl e, w)
      | Inr img_size \<Rightarrow>
          (Inl (HTTPException 422
                 (''GlobalRuntime.load_model() got an unexpected keyword argument ''
                    @ quoted ''embeddings'')), w))"
  by (simp add: generate_image_def load_model_call_raises split: sum.splits option.splits)

text \<open>
  C10 on every request. generate_image calls \<open>session.load_model\<close> with the keyword
  \<open>embeddings\<close>, which load_model does not take: the call raises TypeError before the
  seed is chosen, wrap_excs turns it into HTTPException 422, and no request returns an
  output, so no seed, drawn or passed in, is ever returned; the state is left as it was.
\<close>

theorem generate_image_never_returns:
  "fst (generate_image env c inp w) \<noteq> Inr out \<and> snd (generate_image env c inp w) = w"
  by (simp add: generate_image_outcome split: sum.splits option.splits)

text \<open>A request with no seed, and one with seed 7: both end in the same error.\<close>

lemma generate_image_on_requests:
  "fst (generate_image (ex_env plenty) (ex_collaborators 99) (ex_input None) no_models)
     = Inl (HTTPException 422
             (''GlobalRuntime.load_model() got an unexpected keyword argument ''
                @ quoted ''embeddings''))
   \<and> fst (generate_image (ex_env plenty) (ex_collaborators 99) (ex_input (Some 7)) no_models)
     = Inl (HTTPException 422
             (''GlobalRuntime.load_model() got an unexpected keyword argument ''
                @ quoted ''embeddings''))"
  by (simp add: generate_image_outcome ex_input_def ex_collaborators_def)

section \<open>The retry loop and the demotion of cache entries\<close>

declare cuda_loop.simps [simp del]
declare offload_loop.simps [simp del]

subsection \<open>The branches of the retry loop\<close>

lemma cuda_loop_exit:
  "cuda_loop env f False [] w =
     \<lparr>outcome = Inl not_enough_cuda_memory, attempts = [], offloaded = [],
      final = empty_cache w\<rparr>"
  by (subst cuda_loop.simps) simp

lemma cuda_loop_ok:
  "first_try \<or> cached \<noteq> [] \<Longrightarrow> f w = (Inr r, w1) \<Longrightarrow>
   cuda_loop env f first_try cached w =
     \<lparr>outcome = Inr r, attempts = [(Inr r, w1)], offloaded = [], final = w1\<rparr>"
  by (subst cuda_loop.simps) simp

lemma cuda_loop_raise:
  "first_try \<or> cached \<noteq> [] \<Longrightarrow> f w = (Inl e, w1) \<Longrightarrow>
   \<not> (is_RuntimeError e \<and> is_cuda_oom e \<and> cached \<noteq> []) \<Longrightarrow>
   cuda_loop env f first_try cached w =
     \<lparr>outcome = Inl e, attempts = [(Inl e, w1)], offloaded = [], final = w1\<rparr>"
  by (subst cuda_loop.simps) auto

lemma cuda_loop_offload_fails:
  "f w = (Inl e, w1) \<Longrightarrow> is_RuntimeError e \<Longrightarrow> is_cuda_oom e \<Longrightarrow> cached \<noteq> [] \<Longrightarrow>
   offload_model_to_cpu env (last cached) w1 = (Inl e2, w2) \<Longrightarrow>
   cuda_loop env f first_try cached w =
     \<lparr>outcome = Inl e2, attempts = [(Inl e, w1)], offloaded = [last cached], final = w2\<rparr>"
  by (subst cuda_loop.simps) simp

lemma cuda_loop_retry:
  "f w = (Inl e, w1) \<Longrightarrow> is_RuntimeError e \<Longrightarrow> is_cuda_oom e \<Longrightarrow> cached \<noteq> [] \<Longrightarrow>
   offload_model_to_cpu env (last cached) w1 = (Inr u, w2) \<Longrightarrow>
   cuda_loop env f first_try cached w =
     (cuda_loop env f False (butlast cached) (empty_cache w2))
       \<lparr>attempts := (Inl e, w1) # attempts (cuda_loop env f False (butlast cached) (empty_cache w2)),
        offloaded := last cached # offloaded (cuda_loop env f False (butlast cached) (empty_cache w2))\<rparr>"
  by (subst cuda_loop.simps) (simp add: Let_def)

lemma cuda_loop_induct [case_names exit ok raise offload_fails retry]:
  assumes exit: "\<And>env f w. P env f False [] w"
    and ok: "\<And>env f first_try cached w r w1.
        first_try \<or> cached \<noteq> [] \<Longrightarrow> f w = (Inr r, w1) \<Longrightarrow> P env f first_try cached w"
    and raise: "\<And>env f first_try cached w e w1.
        first_try \<or> cached \<noteq> [] \<Longrightarrow> f w = (Inl e, w1) \<Longrightarrow>
        \<not> (is_RuntimeError e \<and> is_cuda_oom e \<and> cached \<noteq> []) \<Longrightarrow> P env f first_try cached w"
    and offload_fails: "\<And>env f first_try cached w e w1 e2 w2.
        f w = (Inl e, w1) \<Longrightarrow> is_RuntimeError e \<Longrightarrow> is_cuda_oom e \<Longrightarrow> cached \<noteq> [] \<Longrightarrow>
        offload_model_to_cpu env (last cached) w1 = (Inl e2, w2) \<Longrightarrow> P env f first_try cached w"
    and retry: "\<And>env f first_try cached w e w1 u w2.
        f w = (Inl e, w1) \<Longrightarrow> is_RuntimeError e \<Longrightarrow> is_cuda_oom e \<Longrightarrow> cached \<noteq> [] \<Longrightarrow>
        offload_model_to_cpu env (last cached) w1 = (Inr u, w2) \<Longrightarrow>
        P env f False (butlast cached) (empty_cache w2) \<Longrightarrow> P env f first_try cached w"
  shows "P env f first_try cached w"
proof (induction env f first_try cached w rule: cuda_loop.induct)
  case (1 env f first_try cached w)
  show ?case
  proof (cases "first_try \<or> cached \<noteq> []")
    case False
    then show ?thesis using exit by simp
  next
    case True
    obtain res w1 where fw: "f w = (res, w1)" by (cases "f w")
    show ?thesis
    proof (cases res)
      case (Inr r)
      with True fw show ?thesis by (auto intro: ok)
    next
      case (Inl e)
      show ?thesis
      proof (cases "is_RuntimeError e \<and> is_cuda_oom e \<and> cached \<noteq> []")
        case False
        with True fw Inl show ?thesis by (auto intro: raise)
      next
        case again: True
        obtain res2 w2 where off: "offload_model_to_cpu env (last cached) w1 = (res2, w2)"
          by (cases "offload_model_to_cpu env (last cached) w1")
        show ?thesis
        proof (cases res2)
          case (Inl e2)
          with fw \<open>res = Inl e\<close> again off show ?thesis by (auto intro: offload_fails)
        next
          case (Inr u)
          have "P env f False (butlast cached) (empty_cache w2)"
            using "1.IH" [OF True fw [symmetric] _ _ _ _ off [symmetric], of e u]
              \<open>res = Inl e\<close> again Inr by simp
          with fw \<open>res = Inl e\<close> again off Inr show ?thesis by (auto intro: retry)
        qed
      qed
    qed
  qed
qed

lemma attempts_bound:
  "length (attempts (cuda_loop env f first_try cached w))
     \<le> (if first_try then max 1 (length cached) else length cached)"
proof (induction env f first_try cached w rule: cuda_loop_induct)
  case (retry env f first_try cached w e w1 u w2)
  then have "length (attempts (cuda_loop env f False (butlast cached) (empty_cache w2)))
      < length cached" by (simp add: Suc_le_eq less_Suc_eq_le [symmetric] Suc_pred)
  with retry show ?case by (simp add: cuda_loop_retry Suc_le_eq)
qed (auto simp: cuda_loop_exit cuda_loop_ok cuda_loop_raise cuda_loop_offload_fails Suc_le_eq)

lemma rev_last_butlast: "xs \<noteq> [] \<Longrightarrow> rev xs = last xs # rev (butlast xs)"
  by (induction xs rule: rev_induct) simp_all

lemma offloaded_prefix:
  "\<exists>n. offloaded (cuda_loop env f first_try cached w) = take n (rev cached)"
proof (induction env f first_try cached w rule: cuda_loop_induct)
  case (retry env f first_try cached w e w1 u w2)
  then obtain n where
    "offloaded (cuda_loop env f False (butlast cached) (empty_cache w2)) = take n (rev (butlast cached))"
    by blast
  with retry have "offloaded (cuda_loop env f first_try cached w) = take (Suc n) (rev cached)"
    by (simp add: cuda_loop_retry rev_last_butlast)
  then show ?case by blast
next
  case (offload_fails env f first_try cached w e w1 e2 w2)
  then have "offloaded (cuda_loop env f first_try cached w) = take (Suc 0) (rev cached)"
    by (simp add: cuda_loop_offload_fails rev_last_butlast)
  then show ?case by blast
next
  case (exit env f w)
  show ?case by (simp add: cuda_loop_exit)
next
  case (ok env f first_try cached w r w1)
  then have "offloaded (cuda_loop env f first_try cached w) = take 0 (rev cached)"
    by (simp add: cuda_loop_ok)
  then show ?case by blast
next
  case (raise env f first_try cached w e w1)
  then have "offloaded (cuda_loop env f first_try cached w) = take 0 (rev cached)"
    by (simp add: cuda_loop_raise)
  then show ?case by blast
qed

lemma success_is_returned:
  "(Inr x, w') \<in> set (attempts (cuda_loop env f first_try cached w)) \<Longrightarrow>
   outcome (cuda_loop env f first_try cached w) = Inr x
   \<and> final (cuda_loop env f first_try cached w) = w'
   \<and> last (attempts (cuda_loop env f first_try cached w)) = (Inr x, w')"
proof (induction env f first_try cached w rule: cuda_loop_induct)
  case (retry env f first_try cached w e w1 u w2)
  then show ?case by (auto simp: cuda_loop_retry)
qed (auto simp: cuda_loop_exit cuda_loop_ok cuda_loop_raise cuda_loop_offload_fails)

lemma other_error_propagates:
  "(Inl err, w') \<in> set (attempts (cuda_loop env f first_try cached w)) \<Longrightarrow>
   \<not> is_cuda_oom err \<Longrightarrow>
   outcome (cuda_loop env f first_try cached w) = Inl err
   \<and> final (cuda_loop env f first_try cached w) = w'
   \<and> last (attempts (cuda_loop env f first_try cached w)) = (Inl err, w')
   \<and> Suc (length (offloaded (cuda_loop env f first_try cached w)))
       = length (attempts (cuda_loop env f first_try cached w))"
proof (induction env f first_try cached w rule: cuda_loop_induct)
  case (retry env f first_try cached w e w1 u w2)
  then show ?case by (auto simp: cuda_loop_retry)
qed (auto simp: cuda_loop_exit cuda_loop_ok cuda_loop_raise cuda_loop_offload_fails)

lemma attempts_are_invocations:
  "(res, w') \<in> set (attempts (cuda_loop env f first_try cached w)) \<Longrightarrow> \<exists>w0. f w0 = (res, w')"
proof (induction env f first_try cached w rule: cuda_loop_induct)
  case (retry env f first_try cached w e w1 u w2)
  then show ?case by (auto simp: cuda_loop_retry)
qed (auto simp: cuda_loop_exit cuda_loop_ok cuda_loop_raise cuda_loop_offload_fails)

subsection \<open>Demotion cannot fail on a well-formed cache\<close>

lemma delete_as_filter: "AList.delete k al = filter (\<lambda>km. fst km \<noteq> k) al"
  by (induction al) auto

lemma del_model_present:
  "map_of (models w) k = Some m \<Longrightarrow>
   del_model k w = (Inr (), w\<lparr>models := filter (\<lambda>km. fst km \<noteq> k) (models w)\<rparr>)"
  by (simp add: del_model_def delete_as_filter)

lemma map_of_filter_keys:
  "map_of (filter (\<lambda>km. fst km \<notin> D) al) k = (if k \<in> D then None else map_of al k)"
  by (induction al) auto

lemma map_of_filter_key:
  "map_of (filter (\<lambda>km. fst km \<noteq> x) al) k = (if k = x then None else map_of al k)"
  by (induction al) auto

lemma ram_reading:
  "total (virtual_memory env w) \<noteq> 0 \<Longrightarrow> \<exists>full. is_ram_buffer_full (virtual_memory env w) = Inr full"
  by (simp add: is_ram_buffer_full_def)

lemma offload_loop_ok:
  assumes mem: "\<forall>w. total (virtual_memory env w) \<noteq> 0"
  shows "distinct ms \<Longrightarrow> t \<notin> set ms \<Longrightarrow> map_of (models w) t = Some m \<Longrightarrow>
         (\<forall>k \<in> set ms. map_of (models w) k \<noteq> None) \<Longrightarrow>
         \<exists>D w'. offload_loop env t ms w = (Inr (), w') \<and> D \<subseteq> insert t (set ms)
            \<and> models w' = filter (\<lambda>km. fst km \<notin> D) (models w)
            \<and> (\<forall>a. a \<noteq> pipeline m \<longrightarrow> pipes w' a = pipes w a)"
proof (induction ms arbitrary: w rule: rev_induct)
  case Nil
  from mem obtain full where full: "is_ram_buffer_full (virtual_memory env w) = Inr full"
    using ram_reading by blast
  show ?case
  proof (cases full)
    case True
    with full Nil have "offload_loop env t [] w
        = (Inr (), w\<lparr>models := filter (\<lambda>km. fst km \<noteq> t) (models w)\<rparr>)"
      by (subst offload_loop.simps) (simp add: del_model_present)
    then show ?thesis by (intro exI [of _ "{t}"]) simp
  next
    case False
    with full Nil have "offload_loop env t [] w
        = (Inr (), w\<lparr>pipes := (pipes w)(pipeline m := (pipes w (pipeline m))\<lparr>pipe_device := Cpu\<rparr>)\<rparr>)"
      by (subst offload_loop.simps) (simp add: move_to_cpu_def)
    then show ?thesis by (intro exI [of _ "{}"]) simp
  qed
next
  case (snoc x xs)
  from mem obtain full where full: "is_ram_buffer_full (virtual_memory env w) = Inr full"
    using ram_reading by blast
  show ?case
  proof (cases full)
    case False
    with full snoc.prems have "offload_loop env t (xs @ [x]) w
        = (Inr (), w\<lparr>pipes := (pipes w)(pipeline m := (pipes w (pipeline m))\<lparr>pipe_device := Cpu\<rparr>)\<rparr>)"
      by (subst offload_loop.simps) (simp add: move_to_cpu_def)
    then show ?thesis by (intro exI [of _ "{}"]) simp
  next
    case True
    from snoc.prems obtain mx where mx: "map_of (models w) x = Some mx" by auto
    define w1 where "w1 = w\<lparr>models := filter (\<lambda>km. fst km \<noteq> x) (models w)\<rparr>"
    from mx have del: "del_model x w = (Inr (), w1)"
      by (simp add: del_model_present w1_def)
    from snoc.prems have "distinct xs" "t \<notin> set xs" "x \<notin> set xs" "t \<noteq> x" by auto
    moreover from snoc.prems \<open>t \<noteq> x\<close> have "map_of (models w1) t = Some m"
      by (simp add: w1_def map_of_filter_key)
    moreover from snoc.prems \<open>x \<notin> set xs\<close> have "\<forall>k \<in> set xs. map_of (models w1) k \<noteq> None"
      by (auto simp: w1_def map_of_filter_key)
    ultimately obtain D w' where
      rec: "offload_loop env t xs w1 = (Inr (), w')" "D \<subseteq> insert t (set xs)"
        "models w' = filter (\<lambda>km. fst km \<notin> D) (models w1)"
        "\<forall>a. a \<noteq> pipeline m \<longrightarrow> pipes w' a = pipes w1 a"
      using snoc.IH [of w1] by blast
    from full True del rec(1) have "offload_loop env t (xs @ [x]) w = (Inr (), w')"
      by (subst offload_loop.simps) simp
    moreover from rec(2) have "insert x D \<subseteq> insert t (set (xs @ [x]))" by auto
    moreover from rec(3) have "models w' = filter (\<lambda>km. fst km \<notin> insert x D) (models w)"
      by (simp add: w1_def conj_commute)
    moreover from rec(4) have "\<forall>a. a \<noteq> pipeline m \<longrightarrow> pipes w' a = pipes w a"
      by (simp add: w1_def)
    ultimately show ?thesis by blast
  qed
qed

lemma host_keys:
  "distinct (map fst (models w)) \<Longrightarrow>
   k \<in> set (get_loaded_models_by_device w dev ign)
     \<longleftrightarrow> (\<exists>m. map_of (models w) k = Some m \<and> device_of w m = dev \<and> pipeline m \<notin> set ign)"
proof -
  assume d: "distinct (map fst (models w))"
  have "k \<in> set (get_loaded_models_by_device w dev ign)
      \<longleftrightarrow> (\<exists>m. (k, m) \<in> set (models w) \<and> device_of w m = dev \<and> pipeline m \<notin> set ign)"
    unfolding get_loaded_models_by_device_def by (cases k) (auto simp: image_iff)
  with d show ?thesis by simp
qed

lemma distinct_listing:
  "distinct (map fst (models w)) \<Longrightarrow> distinct (get_loaded_models_by_device w dev ign)"
  by (simp add: get_loaded_models_by_device_def distinct_map distinct_map_filter
      inj_on_def)

lemma offload_ok:
  assumes mem: "\<forall>w. total (virtual_memory env w) \<noteq> 0"
    and keys: "distinct (map fst (models w))"
    and t: "map_of (models w) t = Some m" "device_of w m = Cuda"
  shows "\<exists>D w'. offload_model_to_cpu env t w = (Inr (), w')
            \<and> (\<forall>k \<in> D. k = t \<or> (\<exists>m'. map_of (models w) k = Some m' \<and> device_of w m' = Cpu))
            \<and> models w' = filter (\<lambda>km. fst km \<notin> D) (models w)
            \<and> (\<forall>a. a \<noteq> pipeline m \<longrightarrow> pipes w' a = pipes w a)"
proof -
  let ?ms = "get_loaded_models_by_device w Cpu []"
  have "distinct ?ms" using keys by (rule distinct_listing)
  moreover have "t \<notin> set ?ms" using t by (auto simp: host_keys [OF keys])
  moreover have "\<forall>k \<in> set ?ms. map_of (models w) k \<noteq> None" by (auto simp: host_keys [OF keys])
  ultimately obtain D w' where
    r: "offload_loop env t ?ms w = (Inr (), w')" "D \<subseteq> insert t (set ?ms)"
       "models w' = filter (\<lambda>km. fst km \<notin> D) (models w)"
       "\<forall>a. a \<noteq> pipeline m \<longrightarrow> pipes w' a = pipes w a"
    using offload_loop_ok [OF mem _ _ t(1), of ?ms] by blast
  have "k = t \<or> (\<exists>m'. map_of (models w) k = Some m' \<and> device_of w m' = Cpu)" if "k \<in> D" for k
  proof (cases "k = t")
    case False
    with that r(2) have "k \<in> set ?ms" by blast
    then show ?thesis by (simp add: host_keys [OF keys])
  qed simp
  then have "\<forall>k \<in> D. k = t \<or> (\<exists>m'. map_of (models w) k = Some m' \<and> device_of w m' = Cpu)"
    by blast
  with r show ?thesis unfolding offload_model_to_cpu_def by blast
qed

subsection \<open>The run when the work always runs out of memory\<close>

lemma empty_cache_fields [simp]:
  "models (empty_cache w) = models w" "pipes (empty_cache w) = pipes w"
  by (simp_all add: empty_cache_def)

lemma device_of_empty_cache [simp]: "device_of (empty_cache w) m = device_of w m"
  by (simp add: device_of_def)

lemma all_oom_run:
  assumes mem: "\<forall>w. total (virtual_memory env w) \<noteq> 0"
    and pure: "\<forall>w. models (snd (f w)) = models w \<and> pipes (snd (f w)) = pipes w"
    and oom: "\<forall>w. \<exists>msg. fst (f w) = Inl (RuntimeError msg) \<and> is_cuda_oom (RuntimeError msg)"
    and keys: "distinct (map fst (models w))"
    and addrs: "distinct (map (\<lambda>km. pipeline (snd km)) (models w))"
    and dc: "distinct cached"
    and on_cuda: "\<forall>k \<in> set cached. \<exists>m. map_of (models w) k = Some m \<and> device_of w m = Cuda"
  shows "length (attempts (cuda_loop env f first_try cached w))
           = (if first_try then max 1 (length cached) else length cached)
       \<and> offloaded (cuda_loop env f first_try cached w) = rev cached
       \<and> outcome (cuda_loop env f first_try cached w)
           = (if cached = [] \<and> first_try then fst (f w) else Inl not_enough_cuda_memory)"
  using assms
proof (induction env f first_try cached w rule: cuda_loop_induct)
  case (exit env f w)
  show ?case by (simp add: cuda_loop_exit)
next
  case (ok env f first_try cached w r w1)
  from ok.prems(3) obtain msg where "fst (f w) = Inl (RuntimeError msg)" by blast
  with ok.hyps show ?case by simp
next
  case (raise env f first_try cached w e w1)
  from raise.prems(3) obtain msg where "fst (f w) = Inl (RuntimeError msg)"
    "is_cuda_oom (RuntimeError msg)" by blast
  with raise.hyps have "cached = []" "first_try" by auto
  with raise.hyps show ?case by (simp add: cuda_loop_raise)
next
  case (offload_fails env f first_try cached w e w1 e2 w2)
  from offload_fails.prems(2) offload_fails.hyps(1)
  have same: "models w1 = models w" "pipes w1 = pipes w"
    by (metis snd_conv)+
  from offload_fails.hyps(4) have "last cached \<in> set cached" by simp
  with offload_fails.prems(7) obtain m where
    m: "map_of (models w) (last cached) = Some m" "device_of w m = Cuda" by blast
  from m same have "map_of (models w1) (last cached) = Some m" "device_of w1 m = Cuda"
    by (simp_all add: device_of_def)
  moreover from offload_fails.prems(4) same have "distinct (map fst (models w1))" by simp
  ultimately obtain w' where "offload_model_to_cpu env (last cached) w1 = (Inr (), w')"
    using offload_ok [OF offload_fails.prems(1)] by blast
  with offload_fails.hyps(5) show ?case by simp
next
  case (retry env f first_try cached w e w1 u w2)
  let ?t = "last cached"
  from retry.prems(2) retry.hyps(1)
  have same: "models w1 = models w" "pipes w1 = pipes w"
    by (metis snd_conv)+
  from retry.hyps(4) have tin: "?t \<in> set cached" by simp
  with retry.prems(7) obtain m where
    m: "map_of (models w) ?t = Some m" "device_of w m = Cuda" by blast
  from m same have m1: "map_of (models w1) ?t = Some m" "device_of w1 m = Cuda"
    by (simp_all add: device_of_def)
  from retry.prems(4) same have keys1: "distinct (map fst (models w1))" by simp
  from offload_ok [OF retry.prems(1) keys1 m1] retry.hyps(5) obtain D where
    D: "\<forall>k \<in> D. k = ?t \<or> (\<exists>m'. map_of (models w1) k = Some m' \<and> device_of w1 m' = Cpu)"
       "models w2 = filter (\<lambda>km. fst km \<notin> D) (models w1)"
       "\<forall>a. a \<noteq> pipeline m \<longrightarrow> pipes w2 a = pipes w1 a"
    by auto
  have keys2: "distinct (map fst (models (empty_cache w2)))"
    using keys1 D(2) by (simp add: distinct_map_filter)
  have addrs2: "distinct (map (\<lambda>km. pipeline (snd km)) (models (empty_cache w2)))"
    using retry.prems(5) same D(2) by (simp add: distinct_map_filter)
  have dc2: "distinct (butlast cached)" using retry.prems(6) by (rule distinct_butlast)
  have on2: "\<forall>k \<in> set (butlast cached).
       \<exists>m. map_of (models (empty_cache w2)) k = Some m \<and> device_of (empty_cache w2) m = Cuda"
  proof
    fix k assume k: "k \<in> set (butlast cached)"
    then have kin: "k \<in> set cached" by (rule in_set_butlastD)
    from k retry.prems(6) retry.hyps(4) have kt: "k \<noteq> ?t"
      by (metis append_butlast_last_id distinct_append disjoint_iff list.set_intros(1))
    from kin retry.prems(7) obtain mk where
      mk: "map_of (models w) k = Some mk" "device_of w mk = Cuda" by blast
    with same have mk1: "map_of (models w1) k = Some mk" "device_of w1 mk = Cuda"
      by (simp_all add: device_of_def)
    have "k \<notin> D"
    proof
      assume "k \<in> D"
      with D(1) kt obtain m' where "map_of (models w1) k = Some m'" "device_of w1 m' = Cpu"
        by blast
      with mk1 show False by simp
    qed
    with mk1 D(2) have a: "map_of (models (empty_cache w2)) k = Some mk"
      by (simp add: map_of_filter_keys)
    have "pipeline mk \<noteq> pipeline m"
    proof
      assume eq: "pipeline mk = pipeline m"
      from mk(1) m(1) have "(k, mk) \<in> set (models w)" "(?t, m) \<in> set (models w)"
        by (auto dest: map_of_SomeD)
      moreover from retry.prems(5)
      have "inj_on (\<lambda>km. pipeline (snd km)) (set (models w))" by (simp add: distinct_map)
      ultimately have "(k, mk) = (?t, m)"
        using eq inj_onD [of "\<lambda>km. pipeline (snd km)" "set (models w)" "(k, mk)" "(?t, m)"]
        by simp
      with kt show False by simp
    qed
    with D(3) mk1(2) have "device_of (empty_cache w2) mk = Cuda"
      by (simp add: device_of_def)
    with a show "\<exists>m. map_of (models (empty_cache w2)) k = Some m \<and> device_of (empty_cache w2) m = Cuda"
      by blast
  qed
  from retry.IH [OF retry.prems(1) retry.prems(2) retry.prems(3) keys2 addrs2 dc2 on2]
  have rest: "length (attempts (cuda_loop env f False (butlast cached) (empty_cache w2)))
                = length (butlast cached)"
    "offloaded (cuda_loop env f False (butlast cached) (empty_cache w2)) = rev (butlast cached)"
    "outcome (cuda_loop env f False (butlast cached) (empty_cache w2)) = Inl not_enough_cuda_memory"
    by simp_all
  from retry.hyps(4) have "Suc 0 \<le> length cached" by (cases cached) simp_all
  with rest retry.hyps show ?case
    by (simp add: cuda_loop_retry rev_last_butlast max_def)
qed

text \<open>
  C5. In every call of execute_on_cuda, if an invocation of the wrapped function raises
  an error whose text contains none of the out-of-memory signatures, that error is the
  outcome of the call, unchanged; the invocation is the last one (no retry follows), the
  state it left is the final state, and the only entries offloaded are those of the
  earlier invocations, one each (none for this error).
\<close>

theorem execute_on_cuda_other_error:
  assumes "Inl err \<in> set (map fst (attempts (execute_on_cuda env f ignored w)))"
    and "\<not> is_cuda_oom err"
  shows "outcome (execute_on_cuda env f ignored w) = Inl err
       \<and> last (attempts (execute_on_cuda env f ignored w))
           = (Inl err, final (execute_on_cuda env f ignored w))
       \<and> Suc (length (offloaded (execute_on_cuda env f ignored w)))
           = length (attempts (execute_on_cuda env f ignored w))"
proof -
  from assms(1) obtain w' where
    "(Inl err, w') \<in> set (attempts (execute_on_cuda env f ignored w))" by auto
  with assms(2) show ?thesis
    unfolding execute_on_cuda_def by (auto dest: other_error_propagates)
qed

theorem execute_on_cuda_other_error_witness:
  "Inl shape_error \<in> set (map fst (attempts (execute_on_cuda (ex_env plenty) breaks_later [] two_on_cuda)))
   \<and> \<not> is_cuda_oom shape_error
   \<and> outcome (execute_on_cuda (ex_env plenty) breaks_later [] two_on_cuda) = Inl shape_error
   \<and> length (offloaded (execute_on_cuda (ex_env plenty) breaks_later [] two_on_cuda)) = 1
   \<and> length (attempts (execute_on_cuda (ex_env plenty) breaks_later [] two_on_cuda)) = 2"
proof -
  have a: "Inl shape_error
      \<in> set (map fst (attempts (execute_on_cuda (ex_env plenty) breaks_later [] two_on_cuda)))"
    by code_simp
  have b: "\<not> is_cuda_oom shape_error" by code_simp
  have c: "length (attempts (execute_on_cuda (ex_env plenty) breaks_later [] two_on_cuda)) = 2"
    by code_simp
  from execute_on_cuda_other_error [OF a b] a b c show ?thesis by simp
qed

text \<open>
  C2, as amended. A call of execute_on_cuda with \<open>k\<close> evictable entries on the
  accelerator returns after at most \<open>k\<close> retries (at most \<open>k + 1\<close> invocations of the
  wrapped function); a result an invocation returns is the result of the call; and when
  every invocation raises an out-of-memory error, on a cache with distinct keys and
  pipelines that the function leaves alone and with a host memory total that is not
  zero, all \<open>k\<close> entries are offloaded and the call fails, with the error
  \<open>Not enough CUDA memory to complete the operation.\<close> when \<open>k \<ge> 1\<close> and with the
  function's own error when \<open>k = 0\<close>.
\<close>

theorem execute_on_cuda_terminates:
  assumes r: "r = execute_on_cuda env f ignored w"
    and cached: "cached = get_loaded_models_by_device w Cuda ignored"
  shows "length (attempts r) \<le> Suc (length cached)
       \<and> (\<forall>x. Inr x \<in> set (map fst (attempts r)) \<longrightarrow> outcome r = Inr x)
       \<and> ((\<forall>w. total (virtual_memory env w) \<noteq> 0)
            \<and> (\<forall>w. models (snd (f w)) = models w \<and> pipes (snd (f w)) = pipes w)
            \<and> (\<forall>w. \<exists>msg. fst (f w) = Inl (RuntimeError msg) \<and> is_cuda_oom (RuntimeError msg))
            \<and> distinct (map fst (models w))
            \<and> distinct (map (\<lambda>km. pipeline (snd km)) (models w))
          \<longrightarrow> set (offloaded r) = set cached \<and> length (offloaded r) = length cached
              \<and> outcome r = (if cached = [] then fst (f w) else Inl not_enough_cuda_memory))"
proof (intro conjI allI impI)
  have "length (attempts r) \<le> max 1 (length cached)"
    using attempts_bound [of env f True cached w] by (simp add: r cached execute_on_cuda_def)
  then show "length (attempts r) \<le> Suc (length cached)" by simp
next
  fix x assume "Inr x \<in> set (map fst (attempts r))"
  then obtain w' where "(Inr x, w') \<in> set (attempts r)" by auto
  then show "outcome r = Inr x"
    unfolding r execute_on_cuda_def by (auto dest: success_is_returned)
next
  assume h: "(\<forall>w. total (virtual_memory env w) \<noteq> 0)
            \<and> (\<forall>w. models (snd (f w)) = models w \<and> pipes (snd (f w)) = pipes w)
            \<and> (\<forall>w. \<exists>msg. fst (f w) = Inl (RuntimeError msg) \<and> is_cuda_oom (RuntimeError msg))
            \<and> distinct (map fst (models w))
            \<and> distinct (map (\<lambda>km. pipeline (snd km)) (models w))"
  then have keys: "distinct (map fst (models w))" by simp
  have dc: "distinct cached" unfolding cached using keys by (rule distinct_listing)
  have on: "\<forall>k \<in> set cached. \<exists>m. map_of (models w) k = Some m \<and> device_of w m = Cuda"
    unfolding cached by (auto simp: host_keys [OF keys])
  from h have run: "offloaded r = rev cached"
      "outcome r = (if cached = [] \<and> True then fst (f w) else Inl not_enough_cuda_memory)"
    using all_oom_run [of env f w cached True, OF _ _ _ keys _ dc on]
    by (simp_all add: r cached execute_on_cuda_def)
  from run(1) show "set (offloaded r) = set cached" by simp
  from run(1) show "length (offloaded r) = length cached" by simp
  from run(2) show "outcome r = (if cached = [] then fst (f w) else Inl not_enough_cuda_memory)"
    by simp
qed

theorem execute_on_cuda_terminates_witness:
  "length (attempts (execute_on_cuda (ex_env plenty) always_oom [] two_on_cuda)) \<le> 3
   \<and> (\<forall>w. total (virtual_memory (ex_env plenty) w) \<noteq> 0)
   \<and> (\<forall>w. models (snd (always_oom w)) = models w \<and> pipes (snd (always_oom w)) = pipes w)
   \<and> (\<forall>w. \<exists>msg. fst (always_oom w) = Inl (RuntimeError msg) \<and> is_cuda_oom (RuntimeError msg))
   \<and> distinct (map fst (models two_on_cuda))
   \<and> distinct (map (\<lambda>km. pipeline (snd km)) (models two_on_cuda))
   \<and> set (offloaded (execute_on_cuda (ex_env plenty) always_oom [] two_on_cuda)) = {key_A, key_B}
   \<and> outcome (execute_on_cuda (ex_env plenty) always_oom [] two_on_cuda)
       = Inl not_enough_cuda_memory
   \<and> outcome (execute_on_cuda (ex_env plenty) (fits 1) [] two_on_cuda) = Inr 42"
proof -
  have c: "get_loaded_models_by_device two_on_cuda Cuda [] = [key_A, key_B]" by code_simp
  have h1: "\<forall>w. total (virtual_memory (ex_env plenty) w) \<noteq> 0"
    by (simp add: ex_env_def plenty_def)
  have h2: "\<forall>w. models (snd (always_oom w)) = models w \<and> pipes (snd (always_oom w)) = pipes w"
    by (simp add: always_oom_def)
  have oom: "is_cuda_oom cuda_oom" by code_simp
  then have h3: "\<forall>w. \<exists>msg. fst (always_oom w) = Inl (RuntimeError msg) \<and> is_cuda_oom (RuntimeError msg)"
    by (simp add: always_oom_def cuda_oom_def)
  have h4: "distinct (map fst (models two_on_cuda))" by code_simp
  have h5: "distinct (map (\<lambda>km. pipeline (snd km)) (models two_on_cuda))" by code_simp
  have s: "Inr 42 \<in> set (map fst (attempts (execute_on_cuda (ex_env plenty) (fits 1) [] two_on_cuda)))"
    by code_simp
  from execute_on_cuda_terminates [OF refl c [symmetric], of "ex_env plenty" always_oom]
    execute_on_cuda_terminates [OF refl c [symmetric], of "ex_env plenty" "fits 1"]
    h1 h2 h3 h4 h5 s
  show ?thesis by auto
qed

text \<open>
  The claim as first stated fails for \<open>k = 0\<close>: with nothing to evict, the error raised
  is the wrapped function's own out-of-memory error, re-raised by the handler, not the
  error of the loop's exit.
\<close>

theorem execute_on_cuda_nothing_to_evict:
  "get_loaded_models_by_device no_models Cuda [] = []
   \<and> is_cuda_oom cuda_oom
   \<and> outcome (execute_on_cuda (ex_env plenty) always_oom [] no_models) = Inl cuda_oom
   \<and> cuda_oom \<noteq> not_enough_cuda_memory"
  by code_simp

text \<open>
  C1 on a concrete run. A and B are on the accelerator, A used least recently; the
  wrapped function runs out of memory once. The entry the loop pops and offloads is B,
  the most recently used one: the list is sorted by ascending \<open>last_cache_hit\<close> and
  \<open>pop()\<close> takes its last element.
\<close>

theorem execute_on_cuda_offloads_newest:
  "get_loaded_models_by_device two_on_cuda Cuda [] = [key_A, key_B]
   \<and> is_cuda_oom cuda_oom
   \<and> map fst (attempts (execute_on_cuda (ex_env plenty) (fits 1) [] two_on_cuda))
       = [Inl cuda_oom, Inr 42]
   \<and> offloaded (execute_on_cuda (ex_env plenty) (fits 1) [] two_on_cuda) = [key_B]"
  by code_simp

text \<open>
  After the last evictable entry is offloaded the loop ends without invoking the wrapped
  function again, although here it would now succeed.
\<close>

lemma execute_on_cuda_gives_up_after_last_offload:
  "map fst (attempts (execute_on_cuda (ex_env plenty) (fits 0) [] two_on_cuda))
       = [Inl cuda_oom, Inl cuda_oom]
   \<and> offloaded (execute_on_cuda (ex_env plenty) (fits 0) [] two_on_cuda) = [key_B, key_A]
   \<and> outcome (execute_on_cuda (ex_env plenty) (fits 0) [] two_on_cuda)
       = Inl not_enough_cuda_memory
   \<and> fst (fits 0 (final (execute_on_cuda (ex_env plenty) (fits 0) [] two_on_cuda))) = Inr 42"
  by code_simp

text \<open>
  What offload_model_to_cpu does at the two ends: with a quarter or more of host memory
  free the pipeline of the entry is moved and the entry stays; with less and no host
  entry to discard the entry itself is deleted.
\<close>

lemma offload_moves_when_headroom:
  assumes "is_ram_buffer_full (virtual_memory env w) = Inr False"
    and "map_of (models w) model_id = Some m"
  shows "offload_model_to_cpu env model_id w
           = (Inr (), w\<lparr>pipes := (pipes w)(pipeline m := (pipes w (pipeline m))\<lparr>pipe_device := Cpu\<rparr>)\<rparr>)"
  using assms unfolding offload_model_to_cpu_def
  by (subst offload_loop.simps) (simp add: move_to_cpu_def)

lemma headroom_is_a_quarter:
  assumes "total mem \<noteq> 0"
  shows "is_ram_buffer_full mem = Inr (4 * available mem < total mem)"
proof -
  from assms have pos: "(0::rat) < of_nat (total mem)" by simp
  have "(of_nat (available mem) / of_nat (total mem) < (1 - 75 / 100 :: rat))
      \<longleftrightarrow> (of_nat (available mem) < (1 / 4) * (of_nat (total mem) :: rat))"
    using pos by (simp add: pos_divide_less_eq)
  also have "\<dots> \<longleftrightarrow> ((of_nat (4 * available mem) :: rat) < of_nat (total mem))"
    by (simp add: mult.commute)
  also have "\<dots> \<longleftrightarrow> 4 * available mem < total mem"
    by (rule of_nat_less_iff)
  finally show ?thesis using assms
    by (simp only: is_ram_buffer_full_def RAM_BUFFER_PERCENTAGE_def if_False)
qed

lemma offload_discards_target_when_host_is_empty:
  assumes "is_ram_buffer_full (virtual_memory env w) = Inr True"
    and "get_loaded_models_by_device w Cpu [] = []"
    and "map_of (models w) model_id = Some m"
  shows "offload_model_to_cpu env model_id w
           = (Inr (), w\<lparr>models := AList.delete model_id (models w)\<rparr>)"
  using assms unfolding offload_model_to_cpu_def
  by (subst offload_loop.simps) (simp add: del_model_def)

text \<open>
  C6 on a concrete run. A and B are in host memory, A used least recently, and less than
  a quarter of host memory is free until one of them is gone. Offloading T discards B,
  the most recently used host entry, and keeps A.
\<close>

theorem offload_model_to_cpu_discards_newest:
  "get_loaded_models_by_device two_on_host Cpu [] = [key_A, key_B]
   \<and> fst (offload_model_to_cpu (ex_env tight) key_T two_on_host) = Inr ()
   \<and> map fst (models (snd (offload_model_to_cpu (ex_env tight) key_T two_on_host)))
       = [key_A, key_T]
   \<and> get_loaded_models_by_device (snd (offload_model_to_cpu (ex_env tight) key_T two_on_host)) Cpu []
       = [key_A, key_T]"
  by code_simp

section \<open>Resolved references\<close>

text \<open>
  C9. When download_to has resolved a remote reference to a path, resolving the same
  URL, directory and extension again returns the same path and leaves the state as it
  is: the file published by the first resolution is found and no request is sent, so
  the two resolutions send at most one.
\<close>

theorem download_to_idempotent:
  assumes "download_to env url directory extension w = (Inr p, w1)"
  shows "download_to env url directory extension w1 = (Inr p, w1)
       \<and> transfers w1 \<le> Suc (transfers w)"
proof -
  from assms have ext: "\<not> (extension \<noteq> None \<and> endswith url ''.ckpt'')"
    by (auto simp: download_to_def)
  from assms ext obtain dp where dp: "download_path_of env url directory extension = Inr dp"
    by (cases "download_path_of env url directory extension") (auto simp: download_to_def)
  from assms ext dp have "p = dp" "dp \<in> files w1" "transfers w1 \<le> Suc (transfers w)"
    by (auto simp: download_to_def split: if_splits response.splits)
  with ext dp show ?thesis by (simp add: download_to_def)
qed

theorem download_to_idempotent_witness:
  "fst (download_to (ex_env plenty) ex_url CHECKPOINTS_DIR (Some ''safetensors'') no_models)
     = Inr ''/data/checkpoints/model_v2_safetensors-0cc175b9c0f1b6a8.safetensors''
   \<and> fst (download_to (ex_env plenty) ex_url CHECKPOINTS_DIR (Some ''safetensors'')
          (snd (download_to (ex_env plenty) ex_url CHECKPOINTS_DIR (Some ''safetensors'') no_models)))
     = Inr ''/data/checkpoints/model_v2_safetensors-0cc175b9c0f1b6a8.safetensors''
   \<and> transfers (snd (download_to (ex_env plenty) ex_url CHECKPOINTS_DIR (Some ''safetensors'')
          (snd (download_to (ex_env plenty) ex_url CHECKPOINTS_DIR (Some ''safetensors'') no_models))))
     = 1"
proof -
  let ?first = "download_to (ex_env plenty) ex_url CHECKPOINTS_DIR (Some ''safetensors'') no_models"
  have a: "fst ?first = Inr ''/data/checkpoints/model_v2_safetensors-0cc175b9c0f1b6a8.safetensors''"
    by code_simp
  then have h: "?first
      = (Inr ''/data/checkpoints/model_v2_safetensors-0cc175b9c0f1b6a8.safetensors'', snd ?first)"
    by (simp add: prod_eq_iff)
  have t: "transfers (snd ?first) = 1" by code_simp
  from download_to_idempotent [OF h] a t show ?thesis by simp
qed

text \<open>A resolution that raises publishes no file and has sent at most one request.\<close>

lemma download_to_failure_publishes_nothing:
  "download_to env url directory extension w = (Inl e, w1) \<Longrightarrow>
   files w1 = files w \<and> transfers w1 \<le> Suc (transfers w)"
  by (auto simp: download_to_def split: if_splits sum.splits response.splits)

text \<open>
  C8, as amended. For a weight reference that ends in \<open>.ckpt\<close>: a remote one (an
  \<open>http://\<close> or \<open>https://\<close> URL) is rejected by resolution with a ValueError, nothing
  being sent or stored; a local path is not rejected: resolution returns it unchanged,
  and get_model, when the key is not cached, hands it to \<open>from_single_file\<close> and
  caches the pipeline that loader returns.
\<close>

theorem ckpt_rejected_when_remote:
  assumes "endswith name ''.ckpt''"
  shows "(is_remote name \<longrightarrow>
            download_model_if_needed env name w
              = (Inl (ValueError ''Can't load non-safetensor model files.''), w))
       \<and> (\<not> is_remote name \<longrightarrow>
            download_model_if_needed env name w = (Inr name, w)
            \<and> (\<forall>ld. map_of (models w) (name, arch) = None
                    \<and> from_single_file env
                         (if arch = ''sdxl'' then ''StableDiffusionXLPipeline''
                          else ''StableDiffusionPipeline'') name w = Inr ld
                  \<longrightarrow> fst (get_model env name arch w)
                        = Inr \<lparr>pipeline = Suc (next_addr w), last_cache_hit = 0\<rparr>))"
  using assms
  by (auto simp: download_model_if_needed_def download_to_def get_model_def Let_def)

theorem ckpt_rejected_when_remote_witness:
  "endswith ''https://hf.co/org/model.ckpt'' ''.ckpt''
   \<and> is_remote ''https://hf.co/org/model.ckpt''
   \<and> fst (download_model_if_needed (ex_env plenty) ''https://hf.co/org/model.ckpt'' no_models)
       = Inl (ValueError ''Can't load non-safetensor model files.'')
   \<and> transfers (snd (download_model_if_needed (ex_env plenty) ''https://hf.co/org/model.ckpt''
                        no_models)) = 0
   \<and> endswith local_ckpt ''.ckpt'' \<and> \<not> is_remote local_ckpt
   \<and> map_of (models no_models) (local_ckpt, ''sd'') = None
   \<and> from_single_file (ex_env plenty) ''StableDiffusionPipeline'' local_ckpt no_models
       = Inr ex_loaded
   \<and> fst (get_model (ex_env plenty) local_ckpt ''sd'' no_models)
       = Inr \<lparr>pipeline = 2, last_cache_hit = 0\<rparr>"
proof -
  have a: "endswith ''https://hf.co/org/model.ckpt'' ''.ckpt''" by code_simp
  have b: "is_remote ''https://hf.co/org/model.ckpt''" by code_simp
  have c: "endswith local_ckpt ''.ckpt''" by code_simp
  have d: "\<not> is_remote local_ckpt" by code_simp
  have e: "map_of (models no_models) (local_ckpt, ''sd'') = None" by code_simp
  have f: "from_single_file (ex_env plenty) ''StableDiffusionPipeline'' local_ckpt no_models
       = Inr ex_loaded" by (simp add: ex_env_def)
  have g: "next_addr no_models = 1" "transfers no_models = 0" by (simp_all add: no_models_def)
  from ckpt_rejected_when_remote [OF a, of "ex_env plenty" no_models "''sd''"]
    ckpt_rejected_when_remote [OF c, of "ex_env plenty" no_models "''sd''"]
    a b c d e f g
  show ?thesis by simp
qed

text \<open>
  The claim as first stated fails for a local path: the first part of load_model
  resolves the legacy checkpoint, loads it and caches it.
\<close>

theorem local_ckpt_is_loaded:
  "endswith local_ckpt ''.ckpt''
   \<and> fst (download_model_if_needed (ex_env plenty) local_ckpt no_models) = Inr local_ckpt
   \<and> fst (acquire (ex_env plenty) local_ckpt None no_models) = Inr ((local_ckpt, ''sd''), 2)
   \<and> map fst (models (snd (acquire (ex_env plenty) local_ckpt None no_models)))
       = [(local_ckpt, ''sd'')]"
  by code_simp

section \<open>Scoped customisation of a leased pipeline\<close>

text \<open>
  C3. When a named sampler is requested that is supported and passes the compatibility
  check, then after change_scheduler the pipeline holds the sampler instance it held
  before, whatever the block of the \<open>with\<close> statement did: returned, raised, or
  replaced the sampler itself; also when \<open>from_config\<close> raised.
\<close>

theorem change_scheduler_restores:
  assumes "map_of SUPPORTED_SCHEDULERS name = Some (cls, kwargs)"
    and "cls \<in> set (compatibles (schedulers w (pipe_scheduler (pipes w pipe))))
         \<or> cls = ''LCMScheduler''"
  shows "pipe_scheduler (pipes (snd (change_scheduler env pipe (Some name) body w)) pipe)
           = pipe_scheduler (pipes w pipe)"
  using assms
  by (auto simp: change_scheduler_def try_finally_def set_scheduler_def Let_def
      split: prod.splits sum.splits)

theorem change_scheduler_restores_witness:
  "map_of SUPPORTED_SCHEDULERS ''Euler'' = Some (''EulerDiscreteScheduler'', [])
   \<and> ''EulerDiscreteScheduler''
       \<in> set (compatibles (schedulers two_on_cuda (pipe_scheduler (pipes two_on_cuda 1))))
   \<and> pipe_scheduler (pipes two_on_cuda 1) = 0
   \<and> fst (change_scheduler (ex_env plenty) 1 (Some ''Euler'') (reads_scheduler 1) two_on_cuda)
       = Inr 3
   \<and> pipe_scheduler (pipes (snd (change_scheduler (ex_env plenty) 1 (Some ''Euler'')
                                   (reads_scheduler 1) two_on_cuda)) 1) = 0
   \<and> fst (change_scheduler (ex_env plenty) 1 (Some ''Euler'') (breaks_scheduler 1) two_on_cuda)
       = Inl (RuntimeError ''inference failed'')
   \<and> pipe_scheduler (pipes (snd (change_scheduler (ex_env plenty) 1 (Some ''Euler'')
                                   (breaks_scheduler 1) two_on_cuda)) 1) = 0"
proof -
  have a: "map_of SUPPORTED_SCHEDULERS ''Euler'' = Some (''EulerDiscreteScheduler'', [])"
    by code_simp
  have b: "''EulerDiscreteScheduler''
       \<in> set (compatibles (schedulers two_on_cuda (pipe_scheduler (pipes two_on_cuda 1))))"
    by code_simp
  have c: "pipe_scheduler (pipes two_on_cuda 1) = 0" by code_simp
  have d: "fst (change_scheduler (ex_env plenty) 1 (Some ''Euler'') (reads_scheduler 1) two_on_cuda)
       = Inr 3" by code_simp
  have e: "fst (change_scheduler (ex_env plenty) 1 (Some ''Euler'') (breaks_scheduler 1) two_on_cuda)
       = Inl (RuntimeError ''inference failed'')" by code_simp
  from change_scheduler_restores [OF a disjI1 [OF b], of "ex_env plenty" "reads_scheduler 1"]
    change_scheduler_restores [OF a disjI1 [OF b], of "ex_env plenty" "breaks_scheduler 1"]
    a b c d e
  show ?thesis by simp
qed

text \<open>
  C7 on every list that is not empty. merge_and_apply_loras hands each LoraWeight
  object itself, not its path, to download_lora_weight_if_needed, whose
  \<open>startswith\<close> call raises AttributeError: the call ends there, with no overlay
  loaded, no scale set and nothing fused.
\<close>

theorem merge_and_apply_loras_raises:
  "merge_and_apply_loras env pipe (l # ls) w = (Inl no_startswith, w)"
  by (simp add: merge_and_apply_loras_def download_lora_weight_if_needed_def)

text \<open>The loop over resolved overlays makes one load call per overlay, in order.\<close>

lemma load_all_calls:
  "load_all env pipe xs w = (Inr u, w') \<Longrightarrow>
   lora_calls (pipes w' pipe)
     = lora_calls (pipes w pipe) @ map (\<lambda>x. LoadLoraWeights (fst x) (snd (snd x))) xs"
proof (induction xs arbitrary: w)
  case Nil
  then show ?case by simp
next
  case (Cons x xs)
  obtain p s n where x: "x = (p, s, n)" by (cases x)
  from Cons.prems x obtain w1 where
    w1: "pipe_call env pipe (LoadLoraWeights p n) w = (Inr (), w1)"
        "load_all env pipe xs w1 = (Inr u, w')"
    by (auto split: prod.splits sum.splits)
  from w1(1) have "lora_calls (pipes w1 pipe) = lora_calls (pipes w pipe) @ [LoadLoraWeights p n]"
    by (auto simp: pipe_call_def Let_def split: option.splits)
  with Cons.IH [OF w1(2)] x show ?case by simp
qed

subsection \<open>The end of the lease\<close>

lemma models_set_scheduler [simp]: "models (set_scheduler pipe s w) = models w"
  by (simp add: set_scheduler_def)







end
